theory Spec2Isabelle
  imports Complex_Main
begin

section \<open>Data model\<close>

text \<open>
  The raw API types read by \<^verbatim>\<open>SchwabClient.getPutCreditSpreads\<close>. A JavaScript
  number is modelled as an exact rational (\<^typ>\<open>rat\<close>): \<^verbatim>\<open>NaN\<close>, the infinities and
  the rounding of IEEE doubles are outside the model, so the model and the method
  agree on which spreads are pushed only where the strikes decode without
  rounding (see \<open>parseInt\<close>). A JavaScript string is a
  \<^typ>\<open>string\<close> whose characters are the code units below 256. Only the fields the
  method reads are listed; the optional \<^verbatim>\<open>underlyingSymbol?: string\<close> is an option.
\<close>

record instrument =
  assetType :: string
  symbol :: string
  underlyingSymbol :: "string option"

record position =
  shortQuantity :: rat
  longQuantity :: rat
  averagePrice :: rat
  instrument :: instrument

record securitiesAccount =
  accountNumber :: string
  positions :: "position list"

record account =
  securitiesAccount :: securitiesAccount

text \<open>
  \<^verbatim>\<open>new Date(year, monthIndex, day)\<close>: the constructor that reads its arguments as a
  local-time calendar date (midnight of that day in the platform's time zone). The
  value is kept as the constructor application.
\<close>

datatype date = NewDate int int int

record spread =
  underlying :: string
  expiry :: date
  shortStrike :: rat
  longStrike :: rat
  credit :: rat
  quantity :: rat
  theoreticalMaxLossPts :: rat

section \<open>Regular expressions on option symbols\<close>

text \<open>The character classes \<^verbatim>\<open>\d\<close>, \<^verbatim>\<open>\w\<close> and \<^verbatim>\<open>\s\<close> of a JavaScript regular
  expression without flags.\<close>

definition isDigit :: "char \<Rightarrow> bool" where
  "isDigit c = (let n = (of_char c :: nat) in 48 \<le> n \<and> n \<le> 57)"

definition isWord :: "char \<Rightarrow> bool" where
  "isWord c = (let n = (of_char c :: nat) in
     (48 \<le> n \<and> n \<le> 57) \<or> (65 \<le> n \<and> n \<le> 90) \<or> n = 95 \<or> (97 \<le> n \<and> n \<le> 122))"

definition isSpace :: "char \<Rightarrow> bool" where
  "isSpace c = (let n = (of_char c :: nat) in (9 \<le> n \<and> n \<le> 13) \<or> n = 32 \<or> n = 160)"

text \<open>
  Both patterns end in \<^verbatim>\<open>(\d+)$\<close> after a letter, so a match is read from the
  right: the trailing run of digits, the marker before it, the six digits before
  the marker. \<open>trailingDigits\<close> is the longest suffix of digits and
  \<open>beforeDigits\<close> what is in front of it.
\<close>

definition trailingDigits :: "string \<Rightarrow> string" where
  "trailingDigits s = rev (takeWhile isDigit (rev s))"

definition beforeDigits :: "string \<Rightarrow> string" where
  "beforeDigits s = rev (dropWhile isDigit (rev s))"

text \<open>
  \<^verbatim>\<open>/^(\w+)\s*(\d{6})([PC])(\d+)$/.exec(optionSymbol)\<close>: \<open>None\<close> is \<^verbatim>\<open>null\<close>,
  \<open>Some (g1, g2, g3, g4)\<close> the four capture groups.
\<close>

definition execOptionSymbol :: "string \<Rightarrow> (string \<times> string \<times> char \<times> string) option" where
  "execOptionSymbol s =
     (let g4 = trailingDigits s; r = beforeDigits s in
      if g4 = [] \<or> r = [] then None
      else let g3 = last r; r2 = butlast r in
      if g3 \<noteq> CHR ''P'' \<and> g3 \<noteq> CHR ''C'' then None
      else if length r2 < 6 then None
      else let g2 = drop (length r2 - 6) r2; r3 = take (length r2 - 6) r2 in
      if \<not> list_all isDigit g2 then None
      else let g1 = takeWhile isWord r3; sp = dropWhile isWord r3 in
      if g1 = [] \<or> \<not> list_all isSpace sp then None
      else Some (g1, g2, g3, g4))"

text \<open>
  \<^verbatim>\<open>/(\d{6})P(\d+)$/.exec(symbol)\<close>, not anchored at the start: the two capture
  groups, or \<open>None\<close> for \<^verbatim>\<open>null\<close>.
\<close>

definition execPutStrike :: "string \<Rightarrow> (string \<times> string) option" where
  "execPutStrike s =
     (let g2 = trailingDigits s; r = beforeDigits s in
      if g2 = [] \<or> r = [] then None
      else let m = last r; r2 = butlast r in
      if m \<noteq> CHR ''P'' then None
      else if length r2 < 6 then None
      else let g1 = drop (length r2 - 6) r2 in
      if \<not> list_all isDigit g1 then None
      else Some (g1, g2))"

text \<open>The language of the two patterns, as the pattern is written.\<close>

definition matchesOptionSymbol :: "string \<Rightarrow> string \<Rightarrow> string \<Rightarrow> char \<Rightarrow> string \<Rightarrow> bool" where
  "matchesOptionSymbol s g1 g2 g3 g4 \<longleftrightarrow>
     (\<exists>sp. s = g1 @ sp @ g2 @ [g3] @ g4 \<and> g1 \<noteq> [] \<and> list_all isWord g1 \<and> list_all isSpace sp \<and>
        length g2 = 6 \<and> list_all isDigit g2 \<and> (g3 = CHR ''P'' \<or> g3 = CHR ''C'') \<and>
        g4 \<noteq> [] \<and> list_all isDigit g4)"

definition matchesPutStrike :: "string \<Rightarrow> string \<Rightarrow> string \<Rightarrow> bool" where
  "matchesPutStrike s g1 g2 \<longleftrightarrow>
     (\<exists>pre. s = pre @ g1 @ [CHR ''P''] @ g2 \<and> length g1 = 6 \<and> list_all isDigit g1 \<and>
        g2 \<noteq> [] \<and> list_all isDigit g2)"

section \<open>Number and string primitives\<close>

text \<open>
  \<^verbatim>\<open>parseInt\<close> on a string of decimal digits, the only strings the method passes to
  it (a capture of \<^verbatim>\<open>\d+\<close> or a slice of a capture of \<^verbatim>\<open>\d{6}\<close>); a leading zero
  does not change the radix. The definition gives the exact integer. JavaScript
  returns the nearest double, which is that integer whenever it is below \<open>2^53\<close>
  and differs from it above: \<^verbatim>\<open>parseInt("9007199254740993")\<close> is
  \<open>9007199254740992\<close>. A run of at most 15 digits is below \<open>10^15 < 2^53\<close>
  (\<open>parseInt_exact_range\<close>), and two different such integers divided by 1000
  are different doubles in the same order, since they differ by at least
  \<open>1/1000\<close> while doubles below \<open>10^12\<close> are at most \<open>2^-13\<close> apart. Longer runs
  can decode to equal strikes in the method where the model keeps them apart, so
  every theorem that derives a push from a comparison of strikes bounds the digit
  runs by 15.
\<close>

definition digitVal :: "char \<Rightarrow> nat" where
  "digitVal c = of_char c - 48"

definition parseInt :: "string \<Rightarrow> nat" where
  "parseInt s = foldl (\<lambda>n c. 10 * n + digitVal c) 0 s"

text \<open>\<^verbatim>\<open>s.slice(a, b)\<close> for \<open>0 \<le> a \<le> b\<close>.\<close>

definition slice :: "nat \<Rightarrow> nat \<Rightarrow> string \<Rightarrow> string" where
  "slice a b s = take (b - a) (drop a s)"

text \<open>\<^verbatim>\<open>s.includes("P")\<close>.\<close>

definition includesP :: "string \<Rightarrow> bool" where
  "includesP s \<longleftrightarrow> CHR ''P'' \<in> set s"

section \<open>The insertion-ordered map \<^verbatim>\<open>byExpiry\<close>\<close>

text \<open>
  A JavaScript \<^verbatim>\<open>Map\<close> iterates in the order in which its keys were first set, so
  it is an association list: \<open>mapGet\<close> is \<^verbatim>\<open>get(k) ?? []\<close> and \<open>mapSet\<close> replaces
  the value of a present key where it stands and appends a new key at the end.
\<close>

fun mapGet :: "(string \<times> position list) list \<Rightarrow> string \<Rightarrow> position list" where
  "mapGet [] k = []"
| "mapGet ((k', v) # m) k = (if k' = k then v else mapGet m k)"

fun mapSet :: "(string \<times> position list) list \<Rightarrow> string \<Rightarrow> position list \<Rightarrow> (string \<times> position list) list" where
  "mapSet [] k v = [(k, v)]"
| "mapSet ((k', v') # m) k v = (if k' = k then (k, v) # m else (k', v') # mapSet m k v)"

section \<open>getPutCreditSpreads\<close>

text \<open>The filter of an account's positions to the options on the requested underlying.\<close>

definition optionPositions :: "string \<Rightarrow> position list \<Rightarrow> position list" where
  "optionPositions usym ps =
     filter (\<lambda>pos. assetType (instrument pos) = ''OPTION'' \<and>
                   underlyingSymbol (instrument pos) = Some usym) ps"

text \<open>The loop that groups the option positions by expiry key; each \<^verbatim>\<open>continue\<close>
  is the recursive call on the unchanged map.\<close>

fun groupByExpiry :: "position list \<Rightarrow> (string \<times> position list) list \<Rightarrow> (string \<times> position list) list" where
  "groupByExpiry [] byExpiry = byExpiry"
| "groupByExpiry (pos # rest) byExpiry =
     (case execOptionSymbol (symbol (instrument pos)) of
        None \<Rightarrow> groupByExpiry rest byExpiry
      | Some (g1, expiryKey, g3, g4) \<Rightarrow>
          if expiryKey = [] then groupByExpiry rest byExpiry
          else let existing = mapGet byExpiry expiryKey
               in groupByExpiry rest (mapSet byExpiry expiryKey (existing @ [pos])))"

text \<open>The expiry date built when a spread is emitted.\<close>

definition expiryDate :: "string \<Rightarrow> date" where
  "expiryDate expiryKey =
     (let year = 2000 + int (parseInt (slice 0 2 expiryKey));
          month = int (parseInt (slice 2 4 expiryKey)) - 1;
          day = int (parseInt (slice 4 6 expiryKey))
      in NewDate year month day)"

text \<open>The body of the innermost \<^verbatim>\<open>if (longStrike < shortStrike)\<close>: the record
  pushed onto \<^verbatim>\<open>spreads\<close>.\<close>

definition emitSpread :: "string \<Rightarrow> string \<Rightarrow> position \<Rightarrow> rat \<Rightarrow> position \<Rightarrow> rat \<Rightarrow> spread" where
  "emitSpread usym expiryKey shortPut sStrike longPut lStrike =
     (let qty = min (shortQuantity shortPut) (longQuantity longPut);
          width = sStrike - lStrike;
          cr = averagePrice shortPut - averagePrice longPut
      in \<lparr> underlying = usym, expiry = expiryDate expiryKey, shortStrike = sStrike,
           longStrike = lStrike, credit = cr, quantity = qty,
           theoreticalMaxLossPts = width - cr \<rparr>)"

text \<open>The loop over \<^verbatim>\<open>longPuts\<close> for one short put; \<open>spreads\<close> is the output array
  so far.\<close>

fun longLoop :: "string \<Rightarrow> string \<Rightarrow> position \<Rightarrow> rat \<Rightarrow> position list \<Rightarrow> spread list \<Rightarrow> spread list" where
  "longLoop usym expiryKey shortPut sStrike [] spreads = spreads"
| "longLoop usym expiryKey shortPut sStrike (longPut # rest) spreads =
     (case execPutStrike (symbol (instrument longPut)) of
        None \<Rightarrow> longLoop usym expiryKey shortPut sStrike rest spreads
      | Some (d, strikeDigits) \<Rightarrow>
          if strikeDigits = [] then longLoop usym expiryKey shortPut sStrike rest spreads
          else let lStrike = of_nat (parseInt strikeDigits) / 1000 in
            if lStrike < sStrike
            then longLoop usym expiryKey shortPut sStrike rest
                   (spreads @ [emitSpread usym expiryKey shortPut sStrike longPut lStrike])
            else longLoop usym expiryKey shortPut sStrike rest spreads)"

text \<open>The loop over \<^verbatim>\<open>shortPuts\<close> of one expiry group.\<close>

fun shortLoop :: "string \<Rightarrow> string \<Rightarrow> position list \<Rightarrow> position list \<Rightarrow> spread list \<Rightarrow> spread list" where
  "shortLoop usym expiryKey [] longPuts spreads = spreads"
| "shortLoop usym expiryKey (shortPut # rest) longPuts spreads =
     (case execPutStrike (symbol (instrument shortPut)) of
        None \<Rightarrow> shortLoop usym expiryKey rest longPuts spreads
      | Some (d, strikeDigits) \<Rightarrow>
          if strikeDigits = [] then shortLoop usym expiryKey rest longPuts spreads
          else let sStrike = of_nat (parseInt strikeDigits) / 1000 in
            shortLoop usym expiryKey rest longPuts
              (longLoop usym expiryKey shortPut sStrike longPuts spreads))"

text \<open>The three filters at the head of the loop over the entries of
  \<^verbatim>\<open>byExpiry\<close>.\<close>

definition putsOf :: "position list \<Rightarrow> position list" where
  "putsOf expiryPositions = filter (\<lambda>p. includesP (symbol (instrument p))) expiryPositions"

definition shortPutsOf :: "position list \<Rightarrow> position list" where
  "shortPutsOf puts = filter (\<lambda>p. shortQuantity p > 0) puts"

definition longPutsOf :: "position list \<Rightarrow> position list" where
  "longPutsOf puts = filter (\<lambda>p. longQuantity p > 0) puts"

text \<open>The loop over the entries of \<^verbatim>\<open>byExpiry\<close>.\<close>

fun expiryLoop :: "string \<Rightarrow> (string \<times> position list) list \<Rightarrow> spread list \<Rightarrow> spread list" where
  "expiryLoop usym [] spreads = spreads"
| "expiryLoop usym ((expiryKey, expiryPositions) # rest) spreads =
     (let puts = putsOf expiryPositions;
          shortPuts = shortPutsOf puts;
          longPuts = longPutsOf puts
      in expiryLoop usym rest (shortLoop usym expiryKey shortPuts longPuts spreads))"

text \<open>The loop over the accounts of the response.\<close>

fun accountLoop :: "string \<Rightarrow> account list \<Rightarrow> spread list \<Rightarrow> spread list" where
  "accountLoop usym [] spreads = spreads"
| "accountLoop usym (acct # rest) spreads =
     (let ps = positions (securitiesAccount acct);
          byExpiry = groupByExpiry (optionPositions usym ps) []
      in accountLoop usym rest (expiryLoop usym byExpiry spreads))"

text \<open>
  The method, after its request: \<open>accounts\<close> is the response of
  \<^verbatim>\<open>/trader/v1/accounts?fields=positions\<close>, \<open>usym\<close> the requested underlying.
\<close>

definition getPutCreditSpreads :: "account list \<Rightarrow> string \<Rightarrow> spread list" where
  "getPutCreditSpreads accounts usym = accountLoop usym accounts []"

section \<open>The legs behind each emitted spread\<close>

text \<open>
  A spread record does not name the positions it was built from. To speak about
  them, the same loops are written once more as list comprehensions that return,
  for every \<^verbatim>\<open>spreads.push\<close>, the expiry key, the short put with its decoded
  strike and the long put with its decoded strike. \<open>getPutCreditSpreads_legs\<close>
  below proves that the method's output is this list mapped through
  \<open>spreadOf\<close>, element by element.
\<close>

type_synonym legs = "string \<times> position \<times> rat \<times> position \<times> rat"

text \<open>The strike the loops decode from a position's symbol, when they do not
  \<^verbatim>\<open>continue\<close>.\<close>

definition strikeOf :: "position \<Rightarrow> rat option" where
  "strikeOf p =
     (case execPutStrike (symbol (instrument p)) of
        None \<Rightarrow> None
      | Some (d, strikeDigits) \<Rightarrow>
          if strikeDigits = [] then None else Some (of_nat (parseInt strikeDigits) / 1000))"

text \<open>The key under which the grouping loop files a position, when it does not
  \<^verbatim>\<open>continue\<close>.\<close>

definition expiryKeyOf :: "position \<Rightarrow> string option" where
  "expiryKeyOf p =
     (case execOptionSymbol (symbol (instrument p)) of
        None \<Rightarrow> None
      | Some (g1, expiryKey, g3, g4) \<Rightarrow> if expiryKey = [] then None else Some expiryKey)"

definition longLegs :: "string \<Rightarrow> position \<Rightarrow> rat \<Rightarrow> position list \<Rightarrow> legs list" where
  "longLegs expiryKey shortPut sStrike longPuts =
     concat (map (\<lambda>longPut. case strikeOf longPut of
                     None \<Rightarrow> []
                   | Some lStrike \<Rightarrow>
                       if lStrike < sStrike then [(expiryKey, shortPut, sStrike, longPut, lStrike)]
                       else []) longPuts)"

definition shortLegs :: "string \<Rightarrow> position list \<Rightarrow> position list \<Rightarrow> legs list" where
  "shortLegs expiryKey shortPuts longPuts =
     concat (map (\<lambda>shortPut. case strikeOf shortPut of
                     None \<Rightarrow> []
                   | Some sStrike \<Rightarrow> longLegs expiryKey shortPut sStrike longPuts) shortPuts)"

definition groupLegs :: "string \<Rightarrow> position list \<Rightarrow> legs list" where
  "groupLegs expiryKey expiryPositions =
     shortLegs expiryKey (shortPutsOf (putsOf expiryPositions)) (longPutsOf (putsOf expiryPositions))"

definition expiryLegs :: "(string \<times> position list) list \<Rightarrow> legs list" where
  "expiryLegs byExpiry = concat (map (\<lambda>(expiryKey, expiryPositions). groupLegs expiryKey expiryPositions) byExpiry)"

definition accountLegs :: "string \<Rightarrow> position list \<Rightarrow> legs list" where
  "accountLegs usym ps = expiryLegs (groupByExpiry (optionPositions usym ps) [])"

definition spreadLegs :: "account list \<Rightarrow> string \<Rightarrow> legs list" where
  "spreadLegs accounts usym =
     concat (map (\<lambda>acct. accountLegs usym (positions (securitiesAccount acct))) accounts)"

fun spreadOf :: "string \<Rightarrow> legs \<Rightarrow> spread" where
  "spreadOf usym (expiryKey, shortPut, sStrike, longPut, lStrike) =
     emitSpread usym expiryKey shortPut sStrike longPut lStrike"

text \<open>A position the first filter keeps.\<close>

definition isOptionOn :: "string \<Rightarrow> position \<Rightarrow> bool" where
  "isOptionOn usym pos \<longleftrightarrow>
     assetType (instrument pos) = ''OPTION'' \<and> underlyingSymbol (instrument pos) = Some usym"

text \<open>A call position: its symbol matches the encoding with the marker \<^verbatim>\<open>C\<close>.\<close>

definition isCall :: "position \<Rightarrow> bool" where
  "isCall p =
     (case execOptionSymbol (symbol (instrument p)) of
        None \<Rightarrow> False
      | Some (g1, g2, g3, g4) \<Rightarrow> g3 = CHR ''C'')"

text \<open>The conditions under which the loops push a spread for a short put and a
  long put of one account.\<close>

definition validLegs :: "string \<Rightarrow> legs \<Rightarrow> bool" where
  "validLegs usym e =
     (case e of (expiryKey, shortPut, sStrike, longPut, lStrike) \<Rightarrow>
        isOptionOn usym shortPut \<and> isOptionOn usym longPut \<and>
        expiryKeyOf shortPut = Some expiryKey \<and> expiryKeyOf longPut = Some expiryKey \<and>
        includesP (symbol (instrument shortPut)) \<and> includesP (symbol (instrument longPut)) \<and>
        shortQuantity shortPut > 0 \<and> longQuantity longPut > 0 \<and>
        strikeOf shortPut = Some sStrike \<and> strikeOf longPut = Some lStrike \<and>
        lStrike < sStrike)"

section \<open>Concrete positions\<close>

text \<open>An option position on an underlying, an equity position and an account
  holding a list of positions; the fields the method does not read are left out.\<close>

definition optionPosition :: "string \<Rightarrow> string \<Rightarrow> rat \<Rightarrow> rat \<Rightarrow> rat \<Rightarrow> position" where
  "optionPosition usym s sq lq ap =
     \<lparr> shortQuantity = sq, longQuantity = lq, averagePrice = ap,
       instrument = \<lparr> assetType = ''OPTION'', symbol = s, underlyingSymbol = Some usym \<rparr> \<rparr>"

definition equityPosition :: "string \<Rightarrow> rat \<Rightarrow> position" where
  "equityPosition s lq =
     \<lparr> shortQuantity = 0, longQuantity = lq, averagePrice = 100,
       instrument = \<lparr> assetType = ''EQUITY'', symbol = s, underlyingSymbol = None \<rparr> \<rparr>"

definition accountOf :: "position list \<Rightarrow> account" where
  "accountOf ps = \<lparr> securitiesAccount = \<lparr> accountNumber = ''12345678'', positions = ps \<rparr> \<rparr>"

text \<open>The two legs of the scenario on \<^verbatim>\<open>SPX\<close>.\<close>

definition spx5900short :: position where
  "spx5900short = optionPosition ''SPX'' ''SPX   241220P05900000'' 1 0 12.50"

definition spx5800long :: position where
  "spx5800long = optionPosition ''SPX'' ''SPX   241220P05800000'' 0 1 7.00"

text \<open>A short put at 5800 and a long put at 5900, the wrong way round for a credit
  spread.\<close>

definition spx5800short :: position where
  "spx5800short = optionPosition ''SPX'' ''SPX   241220P05800000'' 2 0 6.00"

definition spx5900long :: position where
  "spx5900long = optionPosition ''SPX'' ''SPX   241220P05900000'' 0 2 13.00"

text \<open>Calls and puts on \<^verbatim>\<open>SPY\<close>, whose ticker contains the letter P.\<close>

definition spyCall590short :: position where
  "spyCall590short = optionPosition ''SPY'' ''SPY   241220C00590000'' 1 0 9.40"

definition spyCall580long :: position where
  "spyCall580long = optionPosition ''SPY'' ''SPY   241220C00580000'' 0 1 14.10"

definition spyPut590short :: position where
  "spyPut590short = optionPosition ''SPY'' ''SPY   241220P00590000'' 1 0 4.20"

definition spyPut580long :: position where
  "spyPut580long = optionPosition ''SPY'' ''SPY   241220P00580000'' 0 1 2.10"

text \<open>Option positions whose symbol lacks the date, or the marker.\<close>

definition spxNoDate :: position where
  "spxNoDate = optionPosition ''SPX'' ''SPX   P05900000'' 1 1 3.00"

definition spxNoMarker :: position where
  "spxNoMarker = optionPosition ''SPX'' ''SPX   24122005900000'' 1 1 3.00"

text \<open>A put held both short and long, and a long put below it.\<close>

definition spx5800both :: position where
  "spx5800both = optionPosition ''SPX'' ''SPX   241220P05800000'' 1 1 7.00"

definition spx5700long :: position where
  "spx5700long = optionPosition ''SPX'' ''SPX   241220P05700000'' 0 1 4.00"

section \<open>Positions the method leaves out\<close>

text \<open>A position that is an option and whose symbol matches the encoding; an account
  with every other position taken out of its list.\<close>

definition wellFormedOption :: "position \<Rightarrow> bool" where
  "wellFormedOption p \<longleftrightarrow>
     assetType (instrument p) = ''OPTION'' \<and> execOptionSymbol (symbol (instrument p)) \<noteq> None"

definition withoutExcluded :: "account \<Rightarrow> account" where
  "withoutExcluded acct =
     acct\<lparr> securitiesAccount :=
       (securitiesAccount acct)\<lparr> positions :=
          filter wellFormedOption (positions (securitiesAccount acct)) \<rparr> \<rparr>"

section \<open>The loops as list comprehensions\<close>

text \<open>Each loop appends to the output array the image of its leg list.\<close>

lemma longLoop_legs:
  "longLoop usym k s ss longPuts spreads = spreads @ map (spreadOf usym) (longLegs k s ss longPuts)"
  by (induction longPuts arbitrary: spreads)
     (auto simp: longLegs_def strikeOf_def Let_def split: option.splits)

lemma shortLegs_Cons:
  "shortLegs k (s # rest) longPuts =
     (case strikeOf s of None \<Rightarrow> [] | Some ss \<Rightarrow> longLegs k s ss longPuts) @ shortLegs k rest longPuts"
  by (simp add: shortLegs_def)

lemma shortLoop_legs:
  "shortLoop usym k shortPuts longPuts spreads =
     spreads @ map (spreadOf usym) (shortLegs k shortPuts longPuts)"
proof (induction shortPuts arbitrary: spreads)
  case Nil
  show ?case by (simp add: shortLegs_def)
next
  case (Cons s rest)
  show ?case
    by (cases "execPutStrike (symbol (instrument s))")
       (auto simp: Cons.IH shortLegs_Cons strikeOf_def longLoop_legs Let_def)
qed

lemma expiryLoop_legs:
  "expiryLoop usym byExpiry spreads = spreads @ map (spreadOf usym) (expiryLegs byExpiry)"
proof (induction byExpiry arbitrary: spreads)
  case Nil
  show ?case by (simp add: expiryLegs_def)
next
  case (Cons e rest)
  obtain k eps where e: "e = (k, eps)" by (cases e)
  have "expiryLegs (e # rest) = groupLegs k eps @ expiryLegs rest"
    by (simp add: expiryLegs_def e)
  then show ?case
    by (simp add: e Cons.IH shortLoop_legs groupLegs_def Let_def)
qed

lemma accountLoop_legs:
  "accountLoop usym accounts spreads = spreads @ map (spreadOf usym) (spreadLegs accounts usym)"
proof (induction accounts arbitrary: spreads)
  case Nil
  show ?case by (simp add: spreadLegs_def)
next
  case (Cons a rest)
  have "spreadLegs (a # rest) usym =
          accountLegs usym (positions (securitiesAccount a)) @ spreadLegs rest usym"
    by (simp add: spreadLegs_def)
  then show ?case
    by (simp add: Cons.IH expiryLoop_legs accountLegs_def Let_def)
qed

lemma getPutCreditSpreads_legs:
  "getPutCreditSpreads accounts usym = map (spreadOf usym) (spreadLegs accounts usym)"
  by (simp add: getPutCreditSpreads_def accountLoop_legs)

section \<open>The grouping by expiry key\<close>

text \<open>The map keeps one entry per key; the entry of a key holds the positions filed
  under it, in input order.\<close>

lemma mapGet_mapSet: "mapGet (mapSet m k v) k' = (if k' = k then v else mapGet m k')"
  by (induction m) auto

lemma keys_mapSet: "fst ` set (mapSet m k v) = insert k (fst ` set m)"
proof (induction m)
  case Nil
  show ?case by simp
next
  case (Cons e m)
  obtain k' v' where e: "e = (k', v')" by (cases e)
  show ?case using Cons.IH by (cases "k' = k") (simp_all add: e insert_commute)
qed

lemma distinct_mapSet: "distinct (map fst m) \<Longrightarrow> distinct (map fst (mapSet m k v))"
proof (induction m)
  case Nil
  show ?case by simp
next
  case (Cons e m)
  obtain k' v' where e: "e = (k', v')" by (cases e)
  show ?case using Cons by (cases "k' = k") (simp_all add: e keys_mapSet)
qed

lemma mapGet_notin: "k \<notin> fst ` set m \<Longrightarrow> mapGet m k = []"
  by (induction m) auto

lemma mapGet_in: "distinct (map fst m) \<Longrightarrow> (k, v) \<in> set m \<Longrightarrow> mapGet m k = v"
  by (induction m) (auto simp: rev_image_eqI)

lemma groupByExpiry_distinct:
  "distinct (map fst m) \<Longrightarrow> distinct (map fst (groupByExpiry ps m))"
  by (induction ps arbitrary: m) (auto simp: distinct_mapSet Let_def split: option.splits)

lemma groupByExpiry_get:
  "mapGet (groupByExpiry ps m) k = mapGet m k @ filter (\<lambda>p. expiryKeyOf p = Some k) ps"
  by (induction ps arbitrary: m)
     (auto simp: expiryKeyOf_def mapGet_mapSet Let_def split: option.splits)

lemma groupByExpiry_skip:
  "groupByExpiry (filter (\<lambda>p. execOptionSymbol (symbol (instrument p)) \<noteq> None) ps) m = groupByExpiry ps m"
  by (induction ps arbitrary: m) (auto simp: Let_def split: option.splits)

section \<open>Counting the emitted legs\<close>

text \<open>How often a tuple of legs is emitted: once for every occurrence of the short
  put and every occurrence of the long put in one account, when the loops' conditions
  hold, and never otherwise.\<close>

lemma count_list_filter: "count_list (filter P xs) x = (if P x then count_list xs x else 0)"
  by (induction xs) auto

lemma count_list_concat_map:
  "count_list (concat (map f xs)) y = sum_list (map (\<lambda>x. count_list (f x) y) xs)"
  by (induction xs) auto

lemma count_list_pos_iff: "0 < count_list xs x \<longleftrightarrow> x \<in> set xs"
  using count_list_0_iff [of xs x] by auto

lemma longLegs_count:
  "count_list (longLegs k s ss longPuts) (k', s', ss', l, ls) =
     (if k' = k \<and> s' = s \<and> ss' = ss \<and> strikeOf l = Some ls \<and> ls < ss
      then count_list longPuts l else 0)"
  by (induction longPuts) (auto simp: longLegs_def split: option.splits)

lemma shortLegs_count:
  "count_list (shortLegs k shortPuts longPuts) (k', s, ss, l, ls) =
     (if k' = k \<and> strikeOf s = Some ss \<and> strikeOf l = Some ls \<and> ls < ss
      then count_list shortPuts s * count_list longPuts l else 0)"
proof (induction shortPuts)
  case Nil
  show ?case by (simp add: shortLegs_def)
next
  case (Cons p rest)
  show ?case
    by (cases "strikeOf p") (auto simp: shortLegs_Cons Cons.IH longLegs_count)
qed

lemma groupLegs_count:
  "count_list (groupLegs k eps) (k', s, ss, l, ls) =
     (if k' = k \<and> strikeOf s = Some ss \<and> strikeOf l = Some ls \<and> ls < ss \<and>
         includesP (symbol (instrument s)) \<and> includesP (symbol (instrument l)) \<and>
         shortQuantity s > 0 \<and> longQuantity l > 0
      then count_list eps s * count_list eps l else 0)"
  by (simp add: groupLegs_def shortLegs_count shortPutsOf_def longPutsOf_def putsOf_def
        count_list_filter)

lemma groupLegs_Nil: "groupLegs k [] = []"
  by (simp add: groupLegs_def shortLegs_def shortPutsOf_def putsOf_def)

lemma expiryLegs_count:
  "distinct (map fst m) \<Longrightarrow>
     count_list (expiryLegs m) (k, x) = count_list (groupLegs k (mapGet m k)) (k, x)"
proof (induction m)
  case Nil
  show ?case by (simp add: expiryLegs_def groupLegs_Nil)
next
  case (Cons e rest)
  obtain k' eps where e: "e = (k', eps)" by (cases e)
  obtain s ss l ls where x: "x = (s, ss, l, ls)" by (cases x)
  have split: "count_list (expiryLegs (e # rest)) (k, x) =
      count_list (groupLegs k' eps) (k, x) + count_list (expiryLegs rest) (k, x)"
    by (simp add: expiryLegs_def e)
  have get: "mapGet (e # rest) k = (if k' = k then eps else mapGet rest k)"
    by (simp add: e)
  from Cons.prems have d: "distinct (map fst rest)" and nk: "k' \<notin> fst ` set rest"
    by (simp_all add: e)
  show ?case
  proof (cases "k' = k")
    case True
    with nk have "mapGet rest k = []" by (simp add: mapGet_notin)
    with Cons.IH [OF d] have "count_list (expiryLegs rest) (k, x) = 0"
      by (simp add: groupLegs_Nil)
    then show ?thesis by (simp only: split get) (simp add: True)
  next
    case False
    then have "count_list (groupLegs k' eps) (k, x) = 0"
      by (simp add: x groupLegs_count)
    then show ?thesis using False Cons.IH [OF d] by (simp only: split get) simp
  qed
qed

lemma accountLegs_count:
  "count_list (accountLegs usym ps) e =
     (if validLegs usym e
      then (case e of (k, s, ss, l, ls) \<Rightarrow> count_list ps s * count_list ps l) else 0)"
proof -
  obtain k s ss l ls where e: "e = (k, s, ss, l, ls)" by (cases e)
  let ?m = "groupByExpiry (optionPositions usym ps) []"
  have d: "distinct (map fst ?m)" by (rule groupByExpiry_distinct) simp
  have g: "mapGet ?m k = filter (\<lambda>p. expiryKeyOf p = Some k) (optionPositions usym ps)"
    by (simp add: groupByExpiry_get)
  have "count_list (accountLegs usym ps) e = count_list (groupLegs k (mapGet ?m k)) (k, s, ss, l, ls)"
    unfolding accountLegs_def e by (rule expiryLegs_count [OF d])
  also have "\<dots> = count_list (groupLegs k (filter (\<lambda>p. expiryKeyOf p = Some k)
      (optionPositions usym ps))) (k, s, ss, l, ls)"
    by (simp only: g)
  also have "\<dots> = (if validLegs usym e then count_list ps s * count_list ps l else 0)"
    by (auto simp: groupLegs_count count_list_filter optionPositions_def validLegs_def
          isOptionOn_def e)
  finally show ?thesis by (simp add: e)
qed

lemma accountLegs_member:
  "(k, s, ss, l, ls) \<in> set (accountLegs usym ps) \<longleftrightarrow>
     validLegs usym (k, s, ss, l, ls) \<and> s \<in> set ps \<and> l \<in> set ps"
proof -
  have "(k, s, ss, l, ls) \<in> set (accountLegs usym ps) \<longleftrightarrow>
          0 < count_list (accountLegs usym ps) (k, s, ss, l, ls)"
    by (simp add: count_list_pos_iff)
  also have "\<dots> \<longleftrightarrow> validLegs usym (k, s, ss, l, ls) \<and> 0 < count_list ps s \<and> 0 < count_list ps l"
    by (simp add: accountLegs_count)
  finally show ?thesis by (simp add: count_list_pos_iff)
qed

lemma spreadLegs_count:
  "count_list (spreadLegs accounts usym) (k, s, ss, l, ls) =
     (if validLegs usym (k, s, ss, l, ls)
      then (\<Sum>acct\<leftarrow>accounts. count_list (positions (securitiesAccount acct)) s *
                               count_list (positions (securitiesAccount acct)) l)
      else 0)"
  by (simp add: spreadLegs_def count_list_concat_map accountLegs_count)

lemma spreadLegs_member:
  "(k, s, ss, l, ls) \<in> set (spreadLegs accounts usym) \<longleftrightarrow>
     validLegs usym (k, s, ss, l, ls) \<and>
     (\<exists>acct \<in> set accounts. s \<in> set (positions (securitiesAccount acct)) \<and>
                             l \<in> set (positions (securitiesAccount acct)))"
  by (auto simp: spreadLegs_def accountLegs_member)

section \<open>The matchers accept the language of their patterns\<close>

lemma before_trailing: "beforeDigits s @ trailingDigits s = s"
proof -
  have "beforeDigits s @ trailingDigits s = rev (takeWhile isDigit (rev s) @ dropWhile isDigit (rev s))"
    unfolding beforeDigits_def trailingDigits_def by (simp only: rev_append)
  then show ?thesis by simp
qed

lemma trailingDigits_digits: "list_all isDigit (trailingDigits s)"
  by (simp add: trailingDigits_def list_all_iff) (meson set_takeWhileD)

lemma tail_unique:
  assumes "\<not> isDigit c" "list_all isDigit d"
  shows "trailingDigits (r @ c # d) = d" "beforeDigits (r @ c # d) = r @ [c]"
proof -
  have all: "\<forall>x \<in> set (rev d). isDigit x" using assms(2) by (simp add: list_all_iff)
  have "takeWhile isDigit (rev d @ c # rev r) = rev d"
    using assms(1) all by (simp add: takeWhile_tail)
  then show "trailingDigits (r @ c # d) = d" by (simp add: trailingDigits_def)
  have "dropWhile isDigit (rev d @ c # rev r) = dropWhile isDigit (c # rev r)"
    by (rule dropWhile_append2) (use all in simp)
  then have "dropWhile isDigit (rev d @ c # rev r) = c # rev r"
    using assms(1) by simp
  then show "beforeDigits (r @ c # d) = r @ [c]" by (simp add: beforeDigits_def)
qed

lemma space_not_word: "isSpace c \<Longrightarrow> \<not> isWord c"
  by (auto simp: isSpace_def isWord_def Let_def)

lemma P_not_digit: "\<not> isDigit (CHR ''P'')"
  by (simp add: isDigit_def)

lemma C_not_digit: "\<not> isDigit (CHR ''C'')"
  by (simp add: isDigit_def)

lemma word_prefix_unique:
  assumes "list_all isWord g1" "list_all isSpace sp"
  shows "takeWhile isWord (g1 @ sp) = g1" "dropWhile isWord (g1 @ sp) = sp"
proof -
  have w: "\<forall>x \<in> set g1. isWord x" using assms(1) by (simp add: list_all_iff)
  have s: "takeWhile isWord sp = []" "dropWhile isWord sp = sp"
    using assms(2) by (cases sp; simp add: space_not_word)+
  show "takeWhile isWord (g1 @ sp) = g1" using w s by (simp add: takeWhile_append2)
  show "dropWhile isWord (g1 @ sp) = sp" using w s by (simp add: dropWhile_append2)
qed

lemma execOptionSymbol_sound:
  assumes "execOptionSymbol s = Some (g1, g2, g3, g4)"
  shows "matchesOptionSymbol s g1 g2 g3 g4"
proof -
  let ?r = "beforeDigits s"
  let ?r2 = "butlast ?r"
  let ?r3 = "take (length ?r2 - 6) ?r2"
  from assms have g4: "g4 = trailingDigits s" "g4 \<noteq> []" and r: "?r \<noteq> []"
    and g3: "g3 = last ?r" "g3 = CHR ''P'' \<or> g3 = CHR ''C''"
    and len: "6 \<le> length ?r2" and g2: "g2 = drop (length ?r2 - 6) ?r2" "list_all isDigit g2"
    and g1: "g1 = takeWhile isWord ?r3" "g1 \<noteq> []" and sp: "list_all isSpace (dropWhile isWord ?r3)"
    by (auto simp: execOptionSymbol_def Let_def split: if_splits)
  have "s = ?r @ g4" by (simp add: g4 before_trailing)
  also have "?r = ?r2 @ [g3]" using r by (simp add: g3)
  also have "?r2 = ?r3 @ g2" by (simp add: g2)
  also have "?r3 = g1 @ dropWhile isWord ?r3" by (simp add: g1)
  finally have "s = g1 @ dropWhile isWord ?r3 @ g2 @ [g3] @ g4" by simp
  moreover have "list_all isWord g1"
    by (simp add: g1 list_all_iff) (meson set_takeWhileD)
  moreover have "length g2 = 6" using len by (simp add: g2)
  moreover have "list_all isDigit g4" by (simp add: g4 trailingDigits_digits)
  ultimately show ?thesis
    unfolding matchesOptionSymbol_def using g1 g2 g3 g4 sp by blast
qed

lemma execOptionSymbol_complete:
  assumes "matchesOptionSymbol s g1 g2 g3 g4"
  shows "execOptionSymbol s = Some (g1, g2, g3, g4)"
proof -
  from assms obtain sp where s: "s = g1 @ sp @ g2 @ [g3] @ g4" and g1: "g1 \<noteq> []" "list_all isWord g1"
    and sp: "list_all isSpace sp" and g2: "length g2 = 6" "list_all isDigit g2"
    and g3: "g3 = CHR ''P'' \<or> g3 = CHR ''C''" and g4: "g4 \<noteq> []" "list_all isDigit g4"
    unfolding matchesOptionSymbol_def by blast
  have nd: "\<not> isDigit g3" using g3 P_not_digit C_not_digit by auto
  have s': "s = (g1 @ sp @ g2) @ g3 # g4" by (simp add: s)
  have t: "trailingDigits s = g4" and b: "beforeDigits s = (g1 @ sp @ g2) @ [g3]"
    unfolding s' using tail_unique [OF nd g4(2)] by blast+
  have "beforeDigits s = ((g1 @ sp) @ g2) @ [g3]" by (simp add: b)
  then have bl: "butlast (beforeDigits s) = (g1 @ sp) @ g2" "last (beforeDigits s) = g3"
    by (simp_all only: butlast_snoc last_snoc)
  have ne: "beforeDigits s \<noteq> []" by (simp add: b)
  show ?thesis
    unfolding execOptionSymbol_def Let_def unfolding t bl
    using ne g1 g2 g3 g4 sp word_prefix_unique [OF g1(2) sp]
    by auto
qed

lemma execOptionSymbol_iff:
  "execOptionSymbol s = Some (g1, g2, g3, g4) \<longleftrightarrow> matchesOptionSymbol s g1 g2 g3 g4"
  using execOptionSymbol_sound execOptionSymbol_complete by blast

lemma execPutStrike_sound:
  assumes "execPutStrike s = Some (g1, g2)"
  shows "matchesPutStrike s g1 g2"
proof -
  let ?r = "beforeDigits s"
  let ?r2 = "butlast ?r"
  from assms have g2: "g2 = trailingDigits s" "g2 \<noteq> []" and r: "?r \<noteq> []"
    and m: "last ?r = CHR ''P''"
    and len: "6 \<le> length ?r2" and g1: "g1 = drop (length ?r2 - 6) ?r2" "list_all isDigit g1"
    by (auto simp: execPutStrike_def Let_def split: if_splits)
  have "s = ?r @ g2" by (simp add: g2 before_trailing)
  also have "?r = ?r2 @ [CHR ''P'']" using r m by (metis append_butlast_last_id)
  also have "?r2 = take (length ?r2 - 6) ?r2 @ g1" by (simp add: g1)
  finally have "s = take (length ?r2 - 6) ?r2 @ g1 @ [CHR ''P''] @ g2" by simp
  moreover have "length g1 = 6" using len by (simp add: g1)
  moreover have "list_all isDigit g2" by (simp add: g2 trailingDigits_digits)
  ultimately show ?thesis
    unfolding matchesPutStrike_def using g1 g2 by blast
qed

lemma execPutStrike_complete:
  assumes "matchesPutStrike s g1 g2"
  shows "execPutStrike s = Some (g1, g2)"
proof -
  from assms obtain pre where s: "s = pre @ g1 @ [CHR ''P''] @ g2"
    and g1: "length g1 = 6" "list_all isDigit g1" and g2: "g2 \<noteq> []" "list_all isDigit g2"
    unfolding matchesPutStrike_def by blast
  have s': "s = (pre @ g1) @ CHR ''P'' # g2" by (simp add: s)
  have t: "trailingDigits s = g2" and b: "beforeDigits s = (pre @ g1) @ [CHR ''P'']"
    unfolding s' using tail_unique [OF P_not_digit g2(2)] by blast+
  have bl: "butlast (beforeDigits s) = pre @ g1" "last (beforeDigits s) = CHR ''P''"
    by (simp_all only: b butlast_snoc last_snoc)
  have ne: "beforeDigits s \<noteq> []" by (simp add: b)
  show ?thesis
    unfolding execPutStrike_def Let_def unfolding t bl using ne g1 g2 by simp
qed

lemma execPutStrike_iff:
  "execPutStrike s = Some (g1, g2) \<longleftrightarrow> matchesPutStrike s g1 g2"
  using execPutStrike_sound execPutStrike_complete by blast

text \<open>How the two patterns relate on one symbol.\<close>

lemma put_symbol_strike:
  assumes "execOptionSymbol s = Some (g1, g2, CHR ''P'', g4)"
  shows "execPutStrike s = Some (g2, g4)" "includesP s"
proof -
  from execOptionSymbol_sound [OF assms] obtain sp where
    s: "s = g1 @ sp @ g2 @ [CHR ''P''] @ g4" and p: "length g2 = 6" "list_all isDigit g2"
      "g4 \<noteq> []" "list_all isDigit g4"
    unfolding matchesOptionSymbol_def by blast
  have "matchesPutStrike s g2 g4"
    unfolding matchesPutStrike_def using s p by (intro exI [of _ "g1 @ sp"]) simp
  then show "execPutStrike s = Some (g2, g4)" by (rule execPutStrike_complete)
  show "includesP s" by (simp add: s includesP_def)
qed

lemma call_symbol_no_strike:
  assumes "execOptionSymbol s = Some (g1, g2, CHR ''C'', g4)"
  shows "execPutStrike s = None"
proof -
  from assms have "last (beforeDigits s) = CHR ''C''"
    by (auto simp: execOptionSymbol_def Let_def split: if_splits)
  then show ?thesis by (simp add: execPutStrike_def Let_def)
qed

lemma expiry_code_shape:
  assumes "execOptionSymbol s = Some (g1, g2, g3, g4)"
  shows "length g2 = 6" "list_all isDigit g2" "g4 \<noteq> []"
  using execOptionSymbol_sound [OF assms] unfolding matchesOptionSymbol_def by blast+

lemmas regex_eval = execOptionSymbol_def execPutStrike_def trailingDigits_def beforeDigits_def
  isDigit_def isWord_def isSpace_def Let_def

lemma exec_spx5900: "execOptionSymbol ''SPX   241220P05900000'' = Some (''SPX'', ''241220'', CHR ''P'', ''05900000'')"
  by (simp add: regex_eval)

lemma exec_spx5800: "execOptionSymbol ''SPX   241220P05800000'' = Some (''SPX'', ''241220'', CHR ''P'', ''05800000'')"
  by (simp add: regex_eval)

lemma strike_spx5900: "execPutStrike ''SPX   241220P05900000'' = Some (''241220'', ''05900000'')"
  by (simp add: regex_eval)

lemma strike_spx5800: "execPutStrike ''SPX   241220P05800000'' = Some (''241220'', ''05800000'')"
  by (simp add: regex_eval)

lemmas symbol_eval = exec_spx5900 exec_spx5800 strike_spx5900 strike_spx5800

lemmas run_eval = getPutCreditSpreads_def optionPositions_def putsOf_def shortPutsOf_def
  longPutsOf_def includesP_def emitSpread_def expiryDate_def slice_def parseInt_def digitVal_def
  optionPosition_def equityPosition_def accountOf_def Let_def

lemma put_leg_facts:
  assumes "execOptionSymbol (symbol (instrument p)) = Some (u, k, CHR ''P'', d)"
  shows "expiryKeyOf p = Some k" "strikeOf p = Some (of_nat (parseInt d) / 1000)"
    "includesP (symbol (instrument p))"
proof -
  have "length k = 6" "d \<noteq> []" using expiry_code_shape [OF assms] by simp_all
  then have k: "k \<noteq> []" by auto
  show "expiryKeyOf p = Some k" using assms k by (simp add: expiryKeyOf_def)
  show "strikeOf p = Some (of_nat (parseInt d) / 1000)"
    using put_symbol_strike(1) [OF assms] \<open>d \<noteq> []\<close> by (simp add: strikeOf_def)
  show "includesP (symbol (instrument p))" by (rule put_symbol_strike(2) [OF assms])
qed

lemma exec_spyC590: "execOptionSymbol ''SPY   241220C00590000'' = Some (''SPY'', ''241220'', CHR ''C'', ''00590000'')"
  by (simp add: regex_eval)

lemma exec_spyC580: "execOptionSymbol ''SPY   241220C00580000'' = Some (''SPY'', ''241220'', CHR ''C'', ''00580000'')"
  by (simp add: regex_eval)

lemma exec_spyP590: "execOptionSymbol ''SPY   241220P00590000'' = Some (''SPY'', ''241220'', CHR ''P'', ''00590000'')"
  by (simp add: regex_eval)

lemma exec_spyP580: "execOptionSymbol ''SPY   241220P00580000'' = Some (''SPY'', ''241220'', CHR ''P'', ''00580000'')"
  by (simp add: regex_eval)

lemma strike_spyC590: "execPutStrike ''SPY   241220C00590000'' = None"
  by (simp add: regex_eval)

lemma strike_spyC580: "execPutStrike ''SPY   241220C00580000'' = None"
  by (simp add: regex_eval)

lemma strike_spyP590: "execPutStrike ''SPY   241220P00590000'' = Some (''241220'', ''00590000'')"
  by (simp add: regex_eval)

lemma strike_spyP580: "execPutStrike ''SPY   241220P00580000'' = Some (''241220'', ''00580000'')"
  by (simp add: regex_eval)

lemma exec_noDate: "execOptionSymbol ''SPX   P05900000'' = None"
  by (simp add: regex_eval)

lemma exec_noMarker: "execOptionSymbol ''SPX   24122005900000'' = None"
  by (simp add: regex_eval)

lemmas spy_eval = exec_spyC590 exec_spyC580 exec_spyP590 exec_spyP580
  strike_spyC590 strike_spyC580 strike_spyP590 strike_spyP580

lemma exec_spx5950: "execOptionSymbol ''SPX   241220P05950000'' = Some (''SPX'', ''241220'', CHR ''P'', ''05950000'')"
  by (simp add: regex_eval)

lemma strike_spx5950: "execPutStrike ''SPX   241220P05950000'' = Some (''241220'', ''05950000'')"
  by (simp add: regex_eval)

lemma exec_spx5700: "execOptionSymbol ''SPX   241220P05700000'' = Some (''SPX'', ''241220'', CHR ''P'', ''05700000'')"
  by (simp add: regex_eval)

lemma strike_spx5700: "execPutStrike ''SPX   241220P05700000'' = Some (''241220'', ''05700000'')"
  by (simp add: regex_eval)

lemmas spx_more_eval = exec_spx5950 strike_spx5950 exec_spx5700 strike_spx5700

lemmas legs_eval = spreadLegs_def accountLegs_def expiryLegs_def groupLegs_def shortLegs_def
  longLegs_def strikeOf_def

section \<open>Further facts about the legs\<close>

lemma isCall_no_strike: "isCall p \<Longrightarrow> strikeOf p = None"
  by (auto simp: isCall_def strikeOf_def call_symbol_no_strike split: option.splits)

lemma optionPositions_wellFormed:
  "optionPositions usym (filter wellFormedOption ps) =
     filter (\<lambda>p. execOptionSymbol (symbol (instrument p)) \<noteq> None) (optionPositions usym ps)"
  by (induction ps) (auto simp: optionPositions_def wellFormedOption_def)

lemma accountLegs_wellFormed:
  "accountLegs usym (filter wellFormedOption ps) = accountLegs usym ps"
  by (simp only: accountLegs_def optionPositions_wellFormed groupByExpiry_skip)

lemma spreadLegs_withoutExcluded:
  "spreadLegs (map withoutExcluded accounts) usym = spreadLegs accounts usym"
  by (induction accounts) (simp_all add: spreadLegs_def withoutExcluded_def accountLegs_wellFormed)

lemma getPutCreditSpreads_per_account:
  "getPutCreditSpreads accounts usym = concat (map (\<lambda>acct. getPutCreditSpreads [acct] usym) accounts)"
  by (simp add: getPutCreditSpreads_legs spreadLegs_def map_concat comp_def)

lemma group_members:
  "set (mapGet (groupByExpiry (optionPositions usym ps) []) k) =
     {p \<in> set ps. isOptionOn usym p \<and> expiryKeyOf p = Some k}"
  by (auto simp: groupByExpiry_get optionPositions_def isOptionOn_def)

lemma expiryDate_digits:
  "expiryDate [c1, c2, c3, c4, c5, c6] =
     NewDate (2000 + int (10 * digitVal c1 + digitVal c2))
             (int (10 * digitVal c3 + digitVal c4) - 1)
             (int (10 * digitVal c5 + digitVal c6))"
  by (simp add: expiryDate_def slice_def parseInt_def Let_def)

lemma length_six: "length k = 6 \<Longrightarrow> \<exists>c1 c2 c3 c4 c5 c6. k = [c1, c2, c3, c4, c5, c6]"
  by (auto simp: eval_nat_numeral length_Suc_conv)

lemma expiryKeyOf_shape: "expiryKeyOf p = Some k \<Longrightarrow> length k = 6 \<and> list_all isDigit k"
  by (auto simp: expiryKeyOf_def split: option.splits if_splits dest: expiry_code_shape)

lemma legs_5900_5800_5700: "spreadLegs [accountOf [spx5900short, spx5800both, spx5700long]] ''SPX'' =
     [(''241220'', spx5900short, 5900, spx5800both, 5800),
      (''241220'', spx5900short, 5900, spx5700long, 5700),
      (''241220'', spx5800both, 5800, spx5700long, 5700)]"
  by (simp add: spx5900short_def spx5800both_def spx5700long_def
        symbol_eval spx_more_eval legs_eval run_eval)

lemma spreads_5900_5800_5700: "getPutCreditSpreads [accountOf [spx5900short, spx5800both, spx5700long]] ''SPX'' =
     [\<lparr> underlying = ''SPX'', expiry = NewDate 2024 11 20, shortStrike = 5900, longStrike = 5800,
        credit = 5.50, quantity = 1, theoreticalMaxLossPts = 94.50 \<rparr>,
      \<lparr> underlying = ''SPX'', expiry = NewDate 2024 11 20, shortStrike = 5900, longStrike = 5700,
        credit = 8.50, quantity = 1, theoreticalMaxLossPts = 191.50 \<rparr>,
      \<lparr> underlying = ''SPX'', expiry = NewDate 2024 11 20, shortStrike = 5800, longStrike = 5700,
        credit = 3.00, quantity = 1, theoreticalMaxLossPts = 97.00 \<rparr>]"
  by (simp add: spx5900short_def spx5800both_def spx5700long_def
        symbol_eval spx_more_eval run_eval)

section \<open>Digit runs that decode exactly\<close>

lemma digitVal_le: "isDigit c \<Longrightarrow> digitVal c \<le> 9"
proof -
  assume "isDigit c"
  then have "(of_char c :: nat) \<le> 57" by (simp add: isDigit_def Let_def)
  then have "(of_char c :: nat) - 48 \<le> 9" by linarith
  then show ?thesis by (simp only: digitVal_def)
qed

lemma foldl_digits_bound:
  "list_all isDigit s \<Longrightarrow> foldl (\<lambda>n c. 10 * n + digitVal c) n s < (n + 1) * 10 ^ length s"
proof (induction s arbitrary: n)
  case Nil
  show ?case by simp
next
  case (Cons c s)
  from Cons.prems have c: "digitVal c \<le> 9" and s: "list_all isDigit s"
    by (simp_all add: digitVal_le)
  have "foldl (\<lambda>n c. 10 * n + digitVal c) (10 * n + digitVal c) s
          < (10 * n + digitVal c + 1) * 10 ^ length s"
    by (rule Cons.IH [OF s])
  also have "\<dots> \<le> (10 * n + 10) * 10 ^ length s"
    using c by (intro mult_right_mono) simp_all
  also have "\<dots> = (n + 1) * 10 ^ length (c # s)" by (simp add: algebra_simps)
  finally show ?case by simp
qed

lemma parseInt_lt: "list_all isDigit s \<Longrightarrow> parseInt s < 10 ^ length s"
  using foldl_digits_bound [of s 0] by (simp add: parseInt_def)

lemma parseInt_exact_range:
  assumes "list_all isDigit s" and "length s \<le> 15"
  shows "parseInt s < 2 ^ 53"
proof -
  have "parseInt s < 10 ^ length s" by (rule parseInt_lt [OF assms(1)])
  also have "(10::nat) ^ length s \<le> 10 ^ 15"
    using assms(2) by (intro power_increasing) simp_all
  also have "(10::nat) ^ 15 < 2 ^ 53" by simp
  finally show ?thesis .
qed

lemma strike_digits:
  assumes "execOptionSymbol s = Some (g1, g2, g3, g4)"
  shows "list_all isDigit g4"
  using execOptionSymbol_sound [OF assms] unfolding matchesOptionSymbol_def by blast

section \<open>Claims\<close>

text \<open>
  C1 (as amended). For a short put leg (\<open>shortQuantity > 0\<close>) and a long put leg
  (\<open>longQuantity > 0\<close>), both option positions on the requested underlying, whose
  symbols parse to the same 6-digit expiry code, whose strike digit runs have at
  most 15 digits (so that both strikes decode without rounding) and whose strikes
  satisfy \<open>longStrike < shortStrike\<close>, the method emits the spread of that pair once
  for every occurrence of the two legs together in one account's position list
  (exactly once when an account holds each leg once, never for legs held in
  different accounts), with \<open>quantity = min shortQuantity longQuantity\<close>,
  \<open>credit = short.averagePrice - long.averagePrice\<close> and
  \<open>theoreticalMaxLossPts = (shortStrike - longStrike) - credit\<close>.
\<close>

theorem getPutCreditSpreads_same_account_pair:
  assumes "isOptionOn usym shortPut" and "isOptionOn usym longPut"
    and "execOptionSymbol (symbol (instrument shortPut)) = Some (u1, expiryKey, CHR ''P'', ds)"
    and "execOptionSymbol (symbol (instrument longPut)) = Some (u2, expiryKey, CHR ''P'', dl)"
    and "0 < shortQuantity shortPut" and "0 < longQuantity longPut"
    and "length ds \<le> 15" and "length dl \<le> 15"
    and "sStrike = of_nat (parseInt ds) / 1000" and "lStrike = of_nat (parseInt dl) / 1000"
    and "lStrike < sStrike"
  shows "parseInt ds < 2 ^ 53 \<and> parseInt dl < 2 ^ 53 \<and>
    getPutCreditSpreads accounts usym = map (spreadOf usym) (spreadLegs accounts usym) \<and>
    count_list (spreadLegs accounts usym) (expiryKey, shortPut, sStrike, longPut, lStrike) =
      (\<Sum>acct\<leftarrow>accounts. count_list (positions (securitiesAccount acct)) shortPut *
                               count_list (positions (securitiesAccount acct)) longPut) \<and>
    shortStrike (spreadOf usym (expiryKey, shortPut, sStrike, longPut, lStrike)) = sStrike \<and>
    longStrike (spreadOf usym (expiryKey, shortPut, sStrike, longPut, lStrike)) = lStrike \<and>
    quantity (spreadOf usym (expiryKey, shortPut, sStrike, longPut, lStrike)) =
      min (shortQuantity shortPut) (longQuantity longPut) \<and>
    credit (spreadOf usym (expiryKey, shortPut, sStrike, longPut, lStrike)) =
      averagePrice shortPut - averagePrice longPut \<and>
    theoreticalMaxLossPts (spreadOf usym (expiryKey, shortPut, sStrike, longPut, lStrike)) =
      (sStrike - lStrike) - (averagePrice shortPut - averagePrice longPut)"
proof -
  have exact: "parseInt ds < 2 ^ 53" "parseInt dl < 2 ^ 53"
    using parseInt_exact_range [OF strike_digits [OF assms(3)] assms(7)]
      parseInt_exact_range [OF strike_digits [OF assms(4)] assms(8)]
    by simp_all
  have "validLegs usym (expiryKey, shortPut, sStrike, longPut, lStrike)"
    using assms(1,2,5,6,9,10,11) put_leg_facts [OF assms(3)] put_leg_facts [OF assms(4)]
    by (simp add: validLegs_def)
  then have "count_list (spreadLegs accounts usym) (expiryKey, shortPut, sStrike, longPut, lStrike) =
      (\<Sum>acct\<leftarrow>accounts. count_list (positions (securitiesAccount acct)) shortPut *
                               count_list (positions (securitiesAccount acct)) longPut)"
    by (simp add: spreadLegs_count)
  then show ?thesis
    using exact by (simp add: getPutCreditSpreads_legs emitSpread_def Let_def)
qed

theorem getPutCreditSpreads_same_account_pair_witness:
  "length ''05900000'' \<le> 15 \<and> length ''05800000'' \<le> 15 \<and>
   count_list (spreadLegs [accountOf [spx5900short, spx5800long]] ''SPX'')
     (''241220'', spx5900short, 5900, spx5800long, 5800) = 1 \<and>
   getPutCreditSpreads [accountOf [spx5900short, spx5800long]] ''SPX'' =
     [spreadOf ''SPX'' (''241220'', spx5900short, 5900, spx5800long, 5800)] \<and>
   quantity (spreadOf ''SPX'' (''241220'', spx5900short, 5900, spx5800long, 5800)) = 1 \<and>
   credit (spreadOf ''SPX'' (''241220'', spx5900short, 5900, spx5800long, 5800)) = 5.5 \<and>
   theoreticalMaxLossPts (spreadOf ''SPX'' (''241220'', spx5900short, 5900, spx5800long, 5800)) = 94.5"
  using getPutCreditSpreads_same_account_pair [of "''SPX''" spx5900short spx5800long
      "''SPX''" "''241220''" "''05900000''" "''SPX''" "''05800000''" 5900 5800
      "[accountOf [spx5900short, spx5800long]]"]
  by (simp add: spx5900short_def spx5800long_def isOptionOn_def symbol_eval run_eval)

text \<open>
  C1 as stated fails when the two legs are held in different accounts: every
  condition of the claim holds for the two legs of the scenario, and no spread is
  emitted.
\<close>

theorem pair_across_accounts_counterexample:
  "isOptionOn ''SPX'' spx5900short \<and> isOptionOn ''SPX'' spx5800long \<and>
   0 < shortQuantity spx5900short \<and> 0 < longQuantity spx5800long \<and>
   execOptionSymbol (symbol (instrument spx5900short)) = Some (''SPX'', ''241220'', CHR ''P'', ''05900000'') \<and>
   execOptionSymbol (symbol (instrument spx5800long)) = Some (''SPX'', ''241220'', CHR ''P'', ''05800000'') \<and>
   (of_nat (parseInt ''05800000'') / 1000 :: rat) < of_nat (parseInt ''05900000'') / 1000 \<and>
   getPutCreditSpreads [accountOf [spx5900short], accountOf [spx5800long]] ''SPX'' = []"
  by (simp add: spx5900short_def spx5800long_def isOptionOn_def symbol_eval run_eval)

text \<open>
  C2. A short put and a long put whose decoded strikes satisfy
  \<open>longStrike \<ge> shortStrike\<close> are never emitted as the legs of a spread, and every
  spread of the output has \<open>longStrike < shortStrike\<close>.
\<close>

theorem strict_strike_inequality:
  "(strikeOf shortPut = Some sStrike \<and> strikeOf longPut = Some lStrike \<and> sStrike \<le> lStrike \<longrightarrow>
      (\<forall>k ss ls. (k, shortPut, ss, longPut, ls) \<notin> set (spreadLegs accounts usym))) \<and>
   getPutCreditSpreads accounts usym = map (spreadOf usym) (spreadLegs accounts usym) \<and>
   (\<forall>sp \<in> set (getPutCreditSpreads accounts usym). longStrike sp < shortStrike sp)"
proof (intro conjI impI allI ballI)
  fix k ss ls
  assume a: "strikeOf shortPut = Some sStrike \<and> strikeOf longPut = Some lStrike \<and> sStrike \<le> lStrike"
  show "(k, shortPut, ss, longPut, ls) \<notin> set (spreadLegs accounts usym)"
  proof
    assume "(k, shortPut, ss, longPut, ls) \<in> set (spreadLegs accounts usym)"
    then have "validLegs usym (k, shortPut, ss, longPut, ls)" by (simp add: spreadLegs_member)
    then have "strikeOf shortPut = Some ss" "strikeOf longPut = Some ls" "ls < ss"
      by (simp_all add: validLegs_def)
    with a show False by simp
  qed
next
  show "getPutCreditSpreads accounts usym = map (spreadOf usym) (spreadLegs accounts usym)"
    by (rule getPutCreditSpreads_legs)
next
  fix sp
  assume "sp \<in> set (getPutCreditSpreads accounts usym)"
  then obtain e where e: "e \<in> set (spreadLegs accounts usym)" and sp: "sp = spreadOf usym e"
    by (auto simp: getPutCreditSpreads_legs)
  obtain k s ss l ls where t: "e = (k, s, ss, l, ls)" by (cases e)
  from e have "validLegs usym (k, s, ss, l, ls)" by (simp add: t spreadLegs_member)
  then have "ls < ss" by (simp add: validLegs_def)
  then show "longStrike sp < shortStrike sp" by (simp add: sp t emitSpread_def Let_def)
qed

theorem strict_strike_inequality_witness:
  "strikeOf spx5800short = Some 5800 \<and> strikeOf spx5900long = Some 5900 \<and> (5800::rat) \<le> 5900 \<and>
   (''241220'', spx5800short, 5800, spx5900long, 5900)
      \<notin> set (spreadLegs [accountOf [spx5900short, spx5800short, spx5900long, spx5800long]] ''SPX'') \<and>
   getPutCreditSpreads [accountOf [spx5900short, spx5800short, spx5900long, spx5800long]] ''SPX'' =
     [\<lparr> underlying = ''SPX'', expiry = NewDate 2024 11 20, shortStrike = 5900, longStrike = 5800,
        credit = 5.50, quantity = 1, theoreticalMaxLossPts = 94.50 \<rparr>] \<and>
   longStrike \<lparr> underlying = ''SPX'', expiry = NewDate 2024 11 20, shortStrike = 5900,
        longStrike = 5800, credit = 5.50, quantity = 1, theoreticalMaxLossPts = 94.50 \<rparr>
     < shortStrike \<lparr> underlying = ''SPX'', expiry = NewDate 2024 11 20, shortStrike = 5900,
        longStrike = 5800, credit = 5.50, quantity = 1, theoreticalMaxLossPts = 94.50 \<rparr>"
  using strict_strike_inequality [of spx5800short 5800 spx5900long 5900
      "[accountOf [spx5900short, spx5800short, spx5900long, spx5800long]]" "''SPX''"]
  by (simp add: spx5900short_def spx5800long_def spx5800short_def spx5900long_def strikeOf_def
        symbol_eval run_eval)

text \<open>
  C3. No emitted spread has a call position (a symbol with the marker \<^verbatim>\<open>C\<close>) as
  its short or its long leg, whatever the call's underlying, expiry, strike and
  quantities, also when the ticker contains the letter P.
\<close>

theorem call_legs_never_emitted:
  "getPutCreditSpreads accounts usym = map (spreadOf usym) (spreadLegs accounts usym) \<and>
   (\<forall>(k, shortPut, ss, longPut, ls) \<in> set (spreadLegs accounts usym).
       \<not> isCall shortPut \<and> \<not> isCall longPut)"
proof (intro conjI ballI)
  show "getPutCreditSpreads accounts usym = map (spreadOf usym) (spreadLegs accounts usym)"
    by (rule getPutCreditSpreads_legs)
next
  fix e
  assume e: "e \<in> set (spreadLegs accounts usym)"
  obtain k s ss l ls where t: "e = (k, s, ss, l, ls)" by (cases e)
  from e have "validLegs usym (k, s, ss, l, ls)" by (simp add: t spreadLegs_member)
  then have "strikeOf s = Some ss" "strikeOf l = Some ls" by (simp_all add: validLegs_def)
  then have "\<not> isCall s \<and> \<not> isCall l" using isCall_no_strike by fastforce
  then show "case e of (k, shortPut, ss, longPut, ls) \<Rightarrow> \<not> isCall shortPut \<and> \<not> isCall longPut"
    by (simp add: t)
qed

theorem call_legs_never_emitted_witness:
  "isCall spyCall590short \<and> isCall spyCall580long \<and>
   includesP (symbol (instrument spyCall590short)) \<and>
   0 < shortQuantity spyCall590short \<and> 0 < longQuantity spyCall580long \<and>
   spreadLegs [accountOf [spyCall590short, spyCall580long, spyPut590short, spyPut580long]] ''SPY'' =
     [(''241220'', spyPut590short, 590, spyPut580long, 580)] \<and>
   \<not> isCall spyPut590short \<and> \<not> isCall spyPut580long \<and>
   getPutCreditSpreads [accountOf [spyCall590short, spyCall580long, spyPut590short, spyPut580long]] ''SPY'' =
     [\<lparr> underlying = ''SPY'', expiry = NewDate 2024 11 20, shortStrike = 590, longStrike = 580,
        credit = 2.10, quantity = 1, theoreticalMaxLossPts = 7.90 \<rparr>]"
  using call_legs_never_emitted
    [of "[accountOf [spyCall590short, spyCall580long, spyPut590short, spyPut580long]]" "''SPY''"]
  by (simp add: spyCall590short_def spyCall580long_def spyPut590short_def spyPut580long_def
        isCall_def spy_eval legs_eval run_eval)

text \<open>
  C4. The reconstruction is a total function with no error result: the source has
  no \<^verbatim>\<open>throw\<close> after its request, and each \<^verbatim>\<open>null\<close> of a failed match is met by a
  \<^verbatim>\<open>continue\<close>. Positions that are not options and positions whose symbol does not
  match the encoding contribute nothing: taking them out of every account leaves
  the output unchanged.
\<close>

theorem excluded_positions_contribute_nothing:
  "getPutCreditSpreads (map withoutExcluded accounts) usym = getPutCreditSpreads accounts usym"
  by (simp add: getPutCreditSpreads_legs spreadLegs_withoutExcluded)

theorem excluded_positions_contribute_nothing_witness:
  "\<not> wellFormedOption (equityPosition ''SPX'' 100) \<and> \<not> wellFormedOption spxNoDate \<and>
   \<not> wellFormedOption spxNoMarker \<and>
   getPutCreditSpreads
     [accountOf [equityPosition ''SPX'' 100, spxNoDate, spx5900short, spxNoMarker, spx5800long]] ''SPX'' =
   getPutCreditSpreads [accountOf [spx5900short, spx5800long]] ''SPX'' \<and>
   getPutCreditSpreads [accountOf [spx5900short, spx5800long]] ''SPX'' =
     [\<lparr> underlying = ''SPX'', expiry = NewDate 2024 11 20, shortStrike = 5900, longStrike = 5800,
        credit = 5.50, quantity = 1, theoreticalMaxLossPts = 94.50 \<rparr>]"
  using excluded_positions_contribute_nothing
    [of "[accountOf [equityPosition ''SPX'' 100, spxNoDate, spx5900short, spxNoMarker, spx5800long]]" "''SPX''"]
  by (simp add: withoutExcluded_def wellFormedOption_def spxNoDate_def spxNoMarker_def
        spx5900short_def spx5800long_def exec_noDate exec_noMarker symbol_eval run_eval)

text \<open>
  C5. For underlying \<^verbatim>\<open>SPX\<close>, a short leg \<^verbatim>\<open>SPX   241220P05900000\<close>
  (\<open>shortQuantity = 1\<close>, \<open>averagePrice = 12.50\<close>) and a long leg
  \<^verbatim>\<open>SPX   241220P05800000\<close> (\<open>longQuantity = 1\<close>, \<open>averagePrice = 7.00\<close>) in one
  account, in either order, give exactly one spread: strikes 5900 and 5800, credit
  5.50, quantity 1, maximum loss 94.50.
\<close>

theorem scenario_spx_5900_5800:
  "getPutCreditSpreads [accountOf [spx5900short, spx5800long]] ''SPX'' =
     [\<lparr> underlying = ''SPX'', expiry = NewDate 2024 11 20, shortStrike = 5900, longStrike = 5800,
        credit = 5.50, quantity = 1, theoreticalMaxLossPts = 94.50 \<rparr>] \<and>
   getPutCreditSpreads [accountOf [spx5800long, spx5900short]] ''SPX'' =
     [\<lparr> underlying = ''SPX'', expiry = NewDate 2024 11 20, shortStrike = 5900, longStrike = 5800,
        credit = 5.50, quantity = 1, theoreticalMaxLossPts = 94.50 \<rparr>]"
  by (simp add: spx5900short_def spx5800long_def symbol_eval run_eval)

text \<open>
  C6. Two short puts at 5900 and 5950 and one long put at 5800, same underlying and
  expiry code, in one account: exactly two spreads, one per short leg, both with
  the same long leg, each quantity the minimum of its short leg's
  \<open>shortQuantity\<close> and that long leg's \<open>longQuantity\<close>.
\<close>

theorem cartesian_two_shorts_one_long:
  assumes "0 < q1" and "0 < q2" and "0 < ql"
  shows
  "spreadLegs [accountOf [optionPosition ''SPX'' ''SPX   241220P05900000'' q1 0 a1,
                          optionPosition ''SPX'' ''SPX   241220P05950000'' q2 0 a2,
                          optionPosition ''SPX'' ''SPX   241220P05800000'' 0 ql al]] ''SPX'' =
     [(''241220'', optionPosition ''SPX'' ''SPX   241220P05900000'' q1 0 a1, 5900,
                  optionPosition ''SPX'' ''SPX   241220P05800000'' 0 ql al, 5800),
      (''241220'', optionPosition ''SPX'' ''SPX   241220P05950000'' q2 0 a2, 5950,
                  optionPosition ''SPX'' ''SPX   241220P05800000'' 0 ql al, 5800)] \<and>
   getPutCreditSpreads [accountOf [optionPosition ''SPX'' ''SPX   241220P05900000'' q1 0 a1,
                          optionPosition ''SPX'' ''SPX   241220P05950000'' q2 0 a2,
                          optionPosition ''SPX'' ''SPX   241220P05800000'' 0 ql al]] ''SPX'' =
     [\<lparr> underlying = ''SPX'', expiry = NewDate 2024 11 20, shortStrike = 5900, longStrike = 5800,
        credit = a1 - al, quantity = min q1 ql, theoreticalMaxLossPts = 100 - (a1 - al) \<rparr>,
      \<lparr> underlying = ''SPX'', expiry = NewDate 2024 11 20, shortStrike = 5950, longStrike = 5800,
        credit = a2 - al, quantity = min q2 ql, theoreticalMaxLossPts = 150 - (a2 - al) \<rparr>]"
  using assms by (simp add: symbol_eval spx_more_eval legs_eval run_eval)

theorem cartesian_two_shorts_one_long_witness:
  "(0::rat) < 1 \<and> (0::rat) < 3 \<and> (0::rat) < 2 \<and>
   getPutCreditSpreads [accountOf [optionPosition ''SPX'' ''SPX   241220P05900000'' 1 0 12.50,
                          optionPosition ''SPX'' ''SPX   241220P05950000'' 3 0 20.00,
                          optionPosition ''SPX'' ''SPX   241220P05800000'' 0 2 7.00]] ''SPX'' =
     [\<lparr> underlying = ''SPX'', expiry = NewDate 2024 11 20, shortStrike = 5900, longStrike = 5800,
        credit = 5.50, quantity = 1, theoreticalMaxLossPts = 94.50 \<rparr>,
      \<lparr> underlying = ''SPX'', expiry = NewDate 2024 11 20, shortStrike = 5950, longStrike = 5800,
        credit = 13.00, quantity = 2, theoreticalMaxLossPts = 137.00 \<rparr>]"
  using cartesian_two_shorts_one_long [of 1 3 2 "12.50" "20.00" "7.00"]
  by simp

text \<open>
  C7. When no position of any account has \<open>assetType\<close> equal to \<^verbatim>\<open>OPTION\<close>, the
  output is empty, for every requested underlying.
\<close>

theorem no_option_positions_no_spreads:
  assumes "\<forall>acct \<in> set accounts. \<forall>p \<in> set (positions (securitiesAccount acct)).
             assetType (instrument p) \<noteq> ''OPTION''"
  shows "getPutCreditSpreads accounts usym = []"
proof -
  have "accountLegs usym (positions (securitiesAccount acct)) = []" if "acct \<in> set accounts" for acct
  proof -
    have "optionPositions usym (positions (securitiesAccount acct)) = []"
      using assms that by (simp add: optionPositions_def)
    then show ?thesis by (simp add: accountLegs_def expiryLegs_def)
  qed
  then have "spreadLegs accounts usym = []" by (simp add: spreadLegs_def)
  then show ?thesis by (simp add: getPutCreditSpreads_legs)
qed

theorem no_option_positions_no_spreads_witness:
  "assetType (instrument (equityPosition ''SPX'' 100)) \<noteq> ''OPTION'' \<and>
   assetType (instrument (equityPosition ''AAPL'' 5)) \<noteq> ''OPTION'' \<and>
   getPutCreditSpreads [accountOf [equityPosition ''SPX'' 100, equityPosition ''AAPL'' 5], accountOf []]
     ''SPX'' = []"
  using no_option_positions_no_spreads
    [of "[accountOf [equityPosition ''SPX'' 100, equityPosition ''AAPL'' 5], accountOf []]" "''SPX''"]
  by (simp add: equityPosition_def accountOf_def)

text \<open>
  C8. A put position with \<open>shortQuantity > 0\<close> and \<open>longQuantity > 0\<close> is in both
  the short-leg list and the long-leg list of its expiry group. Where the strike
  digit runs have at most 15 digits (so that the strikes decode without rounding),
  it is the long leg of the spread with every short put of its account and expiry
  above it and the short leg of the spread with every long put below it, in the
  same call.
\<close>

theorem both_sided_put_in_both_leg_sets:
  assumes "acct \<in> set accounts" and "p \<in> set (positions (securitiesAccount acct))"
    and "isOptionOn usym p"
    and "execOptionSymbol (symbol (instrument p)) = Some (u, expiryKey, CHR ''P'', d)"
    and "0 < shortQuantity p" and "0 < longQuantity p"
  shows
  "p \<in> set (shortPutsOf (putsOf (mapGet
        (groupByExpiry (optionPositions usym (positions (securitiesAccount acct))) []) expiryKey))) \<and>
   p \<in> set (longPutsOf (putsOf (mapGet
        (groupByExpiry (optionPositions usym (positions (securitiesAccount acct))) []) expiryKey))) \<and>
   (\<forall>hi uh dh. hi \<in> set (positions (securitiesAccount acct)) \<and> isOptionOn usym hi \<and>
       execOptionSymbol (symbol (instrument hi)) = Some (uh, expiryKey, CHR ''P'', dh) \<and>
       0 < shortQuantity hi \<and> length d \<le> 15 \<and> length dh \<le> 15 \<and>
       (of_nat (parseInt d) / 1000 :: rat) < of_nat (parseInt dh) / 1000 \<longrightarrow>
       parseInt d < 2 ^ 53 \<and> parseInt dh < 2 ^ 53 \<and>
       (expiryKey, hi, of_nat (parseInt dh) / 1000, p, of_nat (parseInt d) / 1000)
          \<in> set (spreadLegs accounts usym)) \<and>
   (\<forall>lo ul dl. lo \<in> set (positions (securitiesAccount acct)) \<and> isOptionOn usym lo \<and>
       execOptionSymbol (symbol (instrument lo)) = Some (ul, expiryKey, CHR ''P'', dl) \<and>
       0 < longQuantity lo \<and> length d \<le> 15 \<and> length dl \<le> 15 \<and>
       (of_nat (parseInt dl) / 1000 :: rat) < of_nat (parseInt d) / 1000 \<longrightarrow>
       parseInt d < 2 ^ 53 \<and> parseInt dl < 2 ^ 53 \<and>
       (expiryKey, p, of_nat (parseInt d) / 1000, lo, of_nat (parseInt dl) / 1000)
          \<in> set (spreadLegs accounts usym)) \<and>
   getPutCreditSpreads accounts usym = map (spreadOf usym) (spreadLegs accounts usym)"
proof -
  let ?ps = "positions (securitiesAccount acct)"
  let ?pk = "of_nat (parseInt d) / 1000 :: rat"
  note pf = put_leg_facts [OF assms(4)]
  note pd = strike_digits [OF assms(4)]
  have grp: "p \<in> set (mapGet (groupByExpiry (optionPositions usym ?ps) []) expiryKey)"
    using assms(2,3) pf(1) by (simp add: group_members)
  have s1: "p \<in> set (shortPutsOf (putsOf (mapGet (groupByExpiry (optionPositions usym ?ps) []) expiryKey)))"
    using grp pf(3) assms(5) by (simp add: shortPutsOf_def putsOf_def)
  have s2: "p \<in> set (longPutsOf (putsOf (mapGet (groupByExpiry (optionPositions usym ?ps) []) expiryKey)))"
    using grp pf(3) assms(6) by (simp add: longPutsOf_def putsOf_def)
  have asLong: "parseInt d < 2 ^ 53 \<and> parseInt dh < 2 ^ 53 \<and>
       (expiryKey, hi, of_nat (parseInt dh) / 1000, p, ?pk) \<in> set (spreadLegs accounts usym)"
    if h: "hi \<in> set ?ps \<and> isOptionOn usym hi \<and>
       execOptionSymbol (symbol (instrument hi)) = Some (uh, expiryKey, CHR ''P'', dh) \<and>
       0 < shortQuantity hi \<and> length d \<le> 15 \<and> length dh \<le> 15 \<and>
       ?pk < of_nat (parseInt dh) / 1000" for hi uh dh
  proof -
    from h have ex: "execOptionSymbol (symbol (instrument hi)) = Some (uh, expiryKey, CHR ''P'', dh)"
      by simp
    note hf = put_leg_facts [OF ex]
    have "validLegs usym (expiryKey, hi, of_nat (parseInt dh) / 1000, p, ?pk)"
      using h assms(3,6) pf hf by (simp add: validLegs_def)
    moreover have "\<exists>a \<in> set accounts. hi \<in> set (positions (securitiesAccount a)) \<and>
        p \<in> set (positions (securitiesAccount a))"
      using h assms(1,2) by blast
    ultimately have "(expiryKey, hi, of_nat (parseInt dh) / 1000, p, ?pk) \<in> set (spreadLegs accounts usym)"
      by (simp only: spreadLegs_member)
    moreover have "parseInt d < 2 ^ 53" "parseInt dh < 2 ^ 53"
      using h parseInt_exact_range [OF pd] parseInt_exact_range [OF strike_digits [OF ex]]
      by simp_all
    ultimately show ?thesis by simp
  qed
  have asShort: "parseInt d < 2 ^ 53 \<and> parseInt dl < 2 ^ 53 \<and>
       (expiryKey, p, ?pk, lo, of_nat (parseInt dl) / 1000) \<in> set (spreadLegs accounts usym)"
    if h: "lo \<in> set ?ps \<and> isOptionOn usym lo \<and>
       execOptionSymbol (symbol (instrument lo)) = Some (ul, expiryKey, CHR ''P'', dl) \<and>
       0 < longQuantity lo \<and> length d \<le> 15 \<and> length dl \<le> 15 \<and>
       of_nat (parseInt dl) / 1000 < ?pk" for lo ul dl
  proof -
    from h have ex: "execOptionSymbol (symbol (instrument lo)) = Some (ul, expiryKey, CHR ''P'', dl)"
      by simp
    note lf = put_leg_facts [OF ex]
    have "validLegs usym (expiryKey, p, ?pk, lo, of_nat (parseInt dl) / 1000)"
      using h assms(3,5) pf lf by (simp add: validLegs_def)
    moreover have "\<exists>a \<in> set accounts. p \<in> set (positions (securitiesAccount a)) \<and>
        lo \<in> set (positions (securitiesAccount a))"
      using h assms(1,2) by blast
    ultimately have "(expiryKey, p, ?pk, lo, of_nat (parseInt dl) / 1000) \<in> set (spreadLegs accounts usym)"
      by (simp only: spreadLegs_member)
    moreover have "parseInt d < 2 ^ 53" "parseInt dl < 2 ^ 53"
      using h parseInt_exact_range [OF pd] parseInt_exact_range [OF strike_digits [OF ex]]
      by simp_all
    ultimately show ?thesis by simp
  qed
  show ?thesis
  proof (intro conjI allI impI)
    show "p \<in> set (shortPutsOf (putsOf (mapGet (groupByExpiry (optionPositions usym ?ps) []) expiryKey)))"
      by (rule s1)
    show "p \<in> set (longPutsOf (putsOf (mapGet (groupByExpiry (optionPositions usym ?ps) []) expiryKey)))"
      by (rule s2)
    show "getPutCreditSpreads accounts usym = map (spreadOf usym) (spreadLegs accounts usym)"
      by (rule getPutCreditSpreads_legs)
  qed (use asLong asShort in blast)+
qed

theorem both_sided_put_in_both_leg_sets_witness:
  "0 < shortQuantity spx5800both \<and> 0 < longQuantity spx5800both \<and>
   length ''05800000'' \<le> 15 \<and> length ''05900000'' \<le> 15 \<and> length ''05700000'' \<le> 15 \<and>
   spx5800both \<in> set (shortPutsOf (putsOf (mapGet
        (groupByExpiry (optionPositions ''SPX'' [spx5900short, spx5800both, spx5700long]) []) ''241220''))) \<and>
   spx5800both \<in> set (longPutsOf (putsOf (mapGet
        (groupByExpiry (optionPositions ''SPX'' [spx5900short, spx5800both, spx5700long]) []) ''241220''))) \<and>
   (''241220'', spx5900short, 5900, spx5800both, 5800)
      \<in> set (spreadLegs [accountOf [spx5900short, spx5800both, spx5700long]] ''SPX'') \<and>
   (''241220'', spx5800both, 5800, spx5700long, 5700)
      \<in> set (spreadLegs [accountOf [spx5900short, spx5800both, spx5700long]] ''SPX'') \<and>
   spreadLegs [accountOf [spx5900short, spx5800both, spx5700long]] ''SPX'' =
     [(''241220'', spx5900short, 5900, spx5800both, 5800),
      (''241220'', spx5900short, 5900, spx5700long, 5700),
      (''241220'', spx5800both, 5800, spx5700long, 5700)] \<and>
   map quantity (getPutCreditSpreads [accountOf [spx5900short, spx5800both, spx5700long]] ''SPX'') =
     [1, 1, 1]"
proof -
  let ?acct = "accountOf [spx5900short, spx5800both, spx5700long]"
  let ?pk = "of_nat (parseInt ''05800000'') / 1000 :: rat"
  let ?hk = "of_nat (parseInt ''05900000'') / 1000 :: rat"
  let ?lk = "of_nat (parseInt ''05700000'') / 1000 :: rat"
  have q: "0 < shortQuantity spx5800both" "0 < longQuantity spx5800both"
    by (simp_all add: spx5800both_def optionPosition_def)
  have len: "length ''05800000'' \<le> 15" "length ''05900000'' \<le> 15" "length ''05700000'' \<le> 15"
    by simp_all
  have pre: "?acct \<in> set [?acct]" "spx5800both \<in> set (positions (securitiesAccount ?acct))"
    "isOptionOn ''SPX'' spx5800both"
    "execOptionSymbol (symbol (instrument spx5800both)) = Some (''SPX'', ''241220'', CHR ''P'', ''05800000'')"
    by (simp_all add: accountOf_def spx5800both_def optionPosition_def isOptionOn_def exec_spx5800)
  have ps: "positions (securitiesAccount ?acct) = [spx5900short, spx5800both, spx5700long]"
    by (simp add: accountOf_def)
  have pk: "?pk = 5800" and hk: "?hk = 5900" and lk: "?lk = 5700"
    by (simp_all add: parseInt_def digitVal_def)
  note th = both_sided_put_in_both_leg_sets [OF pre q]
  have sets: "spx5800both \<in> set (shortPutsOf (putsOf (mapGet
        (groupByExpiry (optionPositions ''SPX'' [spx5900short, spx5800both, spx5700long]) []) ''241220''))) \<and>
   spx5800both \<in> set (longPutsOf (putsOf (mapGet
        (groupByExpiry (optionPositions ''SPX'' [spx5900short, spx5800both, spx5700long]) []) ''241220'')))"
    using th unfolding ps by blast
  have hi: "spx5900short \<in> set (positions (securitiesAccount ?acct)) \<and> isOptionOn ''SPX'' spx5900short \<and>
       execOptionSymbol (symbol (instrument spx5900short)) =
         Some (''SPX'', ''241220'', CHR ''P'', ''05900000'') \<and>
       0 < shortQuantity spx5900short \<and> length ''05800000'' \<le> 15 \<and> length ''05900000'' \<le> 15 \<and>
       ?pk < ?hk"
    unfolding ps pk hk
    by (simp add: spx5900short_def optionPosition_def isOptionOn_def symbol_eval)
  have lo: "spx5700long \<in> set (positions (securitiesAccount ?acct)) \<and> isOptionOn ''SPX'' spx5700long \<and>
       execOptionSymbol (symbol (instrument spx5700long)) =
         Some (''SPX'', ''241220'', CHR ''P'', ''05700000'') \<and>
       0 < longQuantity spx5700long \<and> length ''05800000'' \<le> 15 \<and> length ''05700000'' \<le> 15 \<and>
       ?lk < ?pk"
    unfolding ps pk lk
    by (simp add: spx5700long_def optionPosition_def isOptionOn_def spx_more_eval)
  have m1: "(''241220'', spx5900short, ?hk, spx5800both, ?pk) \<in> set (spreadLegs [?acct] ''SPX'')"
    using th hi by blast
  have m2: "(''241220'', spx5800both, ?pk, spx5700long, ?lk) \<in> set (spreadLegs [?acct] ''SPX'')"
    using th lo by blast
  have out: "map quantity (getPutCreditSpreads [?acct] ''SPX'') = [1, 1, 1]"
    by (simp add: spreads_5900_5800_5700)
  show ?thesis
    using q len sets m1 m2 out unfolding pk hk lk by (simp only: legs_5900_5800_5700 simp_thms)
qed

text \<open>
  C9. For every emitted spread the expiry is built, when the spread is emitted,
  from the 6-digit expiry code \<open>c1 \<dots> c6\<close> shared by the symbols of both legs, by the
  local-time constructor \<^verbatim>\<open>new Date(year, monthIndex, day)\<close> with year
  \<open>2000 + c1c2\<close>, month index \<open>c3c4 - 1\<close> and day \<open>c5c6\<close>.
\<close>

theorem expiry_decoded_from_code:
  "getPutCreditSpreads accounts usym = map (spreadOf usym) (spreadLegs accounts usym) \<and>
   (\<forall>(k, shortPut, ss, longPut, ls) \<in> set (spreadLegs accounts usym).
      expiryKeyOf shortPut = Some k \<and> expiryKeyOf longPut = Some k \<and> list_all isDigit k \<and>
      (\<exists>c1 c2 c3 c4 c5 c6. k = [c1, c2, c3, c4, c5, c6] \<and>
         expiry (spreadOf usym (k, shortPut, ss, longPut, ls)) =
           NewDate (2000 + int (10 * digitVal c1 + digitVal c2))
                   (int (10 * digitVal c3 + digitVal c4) - 1)
                   (int (10 * digitVal c5 + digitVal c6))))"
proof (intro conjI ballI)
  show "getPutCreditSpreads accounts usym = map (spreadOf usym) (spreadLegs accounts usym)"
    by (rule getPutCreditSpreads_legs)
next
  fix e
  assume e: "e \<in> set (spreadLegs accounts usym)"
  obtain k s ss l ls where t: "e = (k, s, ss, l, ls)" by (cases e)
  from e have "validLegs usym (k, s, ss, l, ls)" by (simp add: t spreadLegs_member)
  then have keys: "expiryKeyOf s = Some k" "expiryKeyOf l = Some k" by (simp_all add: validLegs_def)
  from expiryKeyOf_shape [OF keys(1)] have shape: "length k = 6" "list_all isDigit k" by simp_all
  from length_six [OF shape(1)] obtain c1 c2 c3 c4 c5 c6 where k: "k = [c1, c2, c3, c4, c5, c6]"
    by blast
  have "expiry (spreadOf usym (k, s, ss, l, ls)) = expiryDate k"
    by (simp add: emitSpread_def Let_def)
  then have "expiry (spreadOf usym (k, s, ss, l, ls)) =
      NewDate (2000 + int (10 * digitVal c1 + digitVal c2))
              (int (10 * digitVal c3 + digitVal c4) - 1)
              (int (10 * digitVal c5 + digitVal c6))"
    by (simp only: k expiryDate_digits)
  with keys shape k
  show "case e of (k, shortPut, ss, longPut, ls) \<Rightarrow>
      expiryKeyOf shortPut = Some k \<and> expiryKeyOf longPut = Some k \<and> list_all isDigit k \<and>
      (\<exists>c1 c2 c3 c4 c5 c6. k = [c1, c2, c3, c4, c5, c6] \<and>
         expiry (spreadOf usym (k, shortPut, ss, longPut, ls)) =
           NewDate (2000 + int (10 * digitVal c1 + digitVal c2))
                   (int (10 * digitVal c3 + digitVal c4) - 1)
                   (int (10 * digitVal c5 + digitVal c6)))"
    unfolding t by (simp only: prod.case) blast
qed

theorem expiry_decoded_from_code_witness:
  "spreadLegs [accountOf [spx5900short, spx5800long]] ''SPX'' =
     [(''241220'', spx5900short, 5900, spx5800long, 5800)] \<and>
   expiryKeyOf spx5900short = Some ''241220'' \<and> expiryKeyOf spx5800long = Some ''241220'' \<and>
   expiry (spreadOf ''SPX'' (''241220'', spx5900short, 5900, spx5800long, 5800)) = NewDate 2024 11 20 \<and>
   map expiry (getPutCreditSpreads [accountOf [spx5900short, spx5800long]] ''SPX'') = [NewDate 2024 11 20]"
  using expiry_decoded_from_code [of "[accountOf [spx5900short, spx5800long]]" "''SPX''"]
  by (simp add: spx5900short_def spx5800long_def expiryKeyOf_def symbol_eval legs_eval run_eval)

text \<open>
  C10. Legs are paired only within one account's position list: the output is
  the concatenation of the outputs for the single accounts, and a short put and a
  long put that no account holds together are never emitted as the legs of a
  spread.
\<close>

theorem legs_paired_within_one_account:
  assumes "\<forall>acct \<in> set accounts. shortPut \<notin> set (positions (securitiesAccount acct)) \<or>
                                  longPut \<notin> set (positions (securitiesAccount acct))"
  shows "getPutCreditSpreads accounts usym =
           concat (map (\<lambda>acct. getPutCreditSpreads [acct] usym) accounts) \<and>
         getPutCreditSpreads accounts usym = map (spreadOf usym) (spreadLegs accounts usym) \<and>
         (expiryKey, shortPut, sStrike, longPut, lStrike) \<notin> set (spreadLegs accounts usym)"
proof (intro conjI)
  show "getPutCreditSpreads accounts usym =
          concat (map (\<lambda>acct. getPutCreditSpreads [acct] usym) accounts)"
    by (rule getPutCreditSpreads_per_account)
  show "getPutCreditSpreads accounts usym = map (spreadOf usym) (spreadLegs accounts usym)"
    by (rule getPutCreditSpreads_legs)
  show "(expiryKey, shortPut, sStrike, longPut, lStrike) \<notin> set (spreadLegs accounts usym)"
    using assms by (auto simp: spreadLegs_member)
qed

theorem legs_paired_within_one_account_witness:
  "validLegs ''SPX'' (''241220'', spx5900short, 5900, spx5800long, 5800) \<and>
   (''241220'', spx5900short, 5900, spx5800long, 5800)
      \<notin> set (spreadLegs [accountOf [spx5900short], accountOf [spx5800long]] ''SPX'') \<and>
   getPutCreditSpreads [accountOf [spx5900short], accountOf [spx5800long]] ''SPX'' = [] \<and>
   (''241220'', spx5900short, 5900, spx5800long, 5800)
      \<in> set (spreadLegs [accountOf [spx5900short, spx5800long]] ''SPX'')"
  using legs_paired_within_one_account
    [of "[accountOf [spx5900short], accountOf [spx5800long]]" spx5900short spx5800long
        "''SPX''" "''241220''" 5900 5800]
  by (simp add: validLegs_def isOptionOn_def expiryKeyOf_def spx5900short_def spx5800long_def
        symbol_eval legs_eval run_eval)

end
